theory Spec2Isabelle
  imports Main "HOL-Library.Sublist"
begin

section \<open>Python values and exceptions\<close>

text \<open>
  The program is dynamically typed: a field holds whatever object it was given. The
  values that can reach the address book are the command line's text, the values
  \<^verbatim>\<open>json.load\<close> produces (null, booleans, integers, text, arrays, objects with
  text keys) and, through a direct call of the classes, a \<^verbatim>\<open>datetime.date\<close>.
  Text is ASCII text (a \<^typ>\<open>char list\<close>); JSON numbers with a fraction are outside
  the model.
\<close>

datatype pyval =
    PNone
  | PBool bool
  | PInt int
  | PStr string
  | PList "pyval list"
  | PDict "(string \<times> pyval) list"
  | PDate int int int

text \<open>
  The exceptions the program can meet. \<open>ValueError\<close> carries its message, which
  \<^verbatim>\<open>input_error\<close> returns as the response; the error of the JSON decoder is a
  \<open>ValueError\<close> too.
\<close>

datatype error =
    ValueError string
  | TypeError
  | KeyError
  | IndexError
  | AttributeError
  | OverflowError
  | FileNotFoundError
  | ZeroDivisionError
  | EOFError

section \<open>Text helpers of the standard library\<close>

definition is_ascii_digit :: "char \<Rightarrow> bool" where
  "is_ascii_digit c = (c \<in> set ''0123456789'')"

text \<open>\<^verbatim>\<open>str.isdigit()\<close>: every character is a digit and there is at least one.\<close>

definition isdigit :: "string \<Rightarrow> bool" where
  "isdigit s = (s \<noteq> [] \<and> list_all is_ascii_digit s)"

text \<open>\<^verbatim>\<open>str.split(sep)\<close> with a one-character separator: empty parts are kept.\<close>

fun split_on :: "char \<Rightarrow> string \<Rightarrow> string list" where
  "split_on c [] = [[]]"
| "split_on c (x # xs) =
     (if x = c then [] # split_on c xs
      else (case split_on c xs of
              [] \<Rightarrow> [[x]]
            | p # ps \<Rightarrow> (x # p) # ps))"

text \<open>
  \<^verbatim>\<open>int(text)\<close>: white space around the number is dropped, one sign is allowed, and
  the digits may be grouped by single underscores. \<open>None\<close> stands for the
  \<open>ValueError\<close> of a text that is not a number. (The limit of 4300 digits of recent
  interpreters is not modelled.)
\<close>

definition is_c_space :: "char \<Rightarrow> bool" where
  "is_c_space c = (of_char c \<in> {9, 10, 11, 12, 13, 32 :: nat})"

definition strip_int :: "string \<Rightarrow> string" where
  "strip_int s = rev (dropWhile is_c_space (rev (dropWhile is_c_space s)))"

fun int_body :: "bool \<Rightarrow> string \<Rightarrow> bool" where
  "int_body prev_digit [] = prev_digit"
| "int_body prev_digit (c # cs) =
     (if is_ascii_digit c then int_body True cs
      else if c = CHR ''_'' \<and> prev_digit then int_body False cs
      else False)"

definition digit_val :: "char \<Rightarrow> int" where
  "digit_val c = int (of_char c) - 48"

definition digits_val :: "string \<Rightarrow> int" where
  "digits_val s = foldl (\<lambda>a c. 10 * a + digit_val c) 0 (filter is_ascii_digit s)"

definition py_int :: "string \<Rightarrow> int option" where
  "py_int s =
     (let t = strip_int s;
          neg = (case t of [] \<Rightarrow> False | c # _ \<Rightarrow> c = CHR ''-'');
          body = (case t of [] \<Rightarrow> []
                  | c # r \<Rightarrow> if c = CHR ''-'' \<or> c = CHR ''+'' then r else t)
      in if int_body False body
         then Some (if neg then - digits_val body else digits_val body)
         else None)"

text \<open>\<^verbatim>\<open>str(n)\<close> of an integer.\<close>

fun decimal :: "nat \<Rightarrow> string" where
  "decimal n =
     (if n < 10 then [''0123456789'' ! n]
      else decimal (n div 10) @ [''0123456789'' ! (n mod 10)])"

definition str_of_int :: "int \<Rightarrow> string" where
  "str_of_int i = (if i < 0 then CHR ''-'' # decimal (nat (- i)) else decimal (nat i))"

section \<open>Calendar dates (\<^verbatim>\<open>datetime.date\<close>)\<close>

definition is_leap :: "int \<Rightarrow> bool" where
  "is_leap y = (y mod 4 = 0 \<and> (y mod 100 \<noteq> 0 \<or> y mod 400 = 0))"

definition days_in_month :: "int \<Rightarrow> int \<Rightarrow> int" where
  "days_in_month y m =
     (if m = 2 then (if is_leap y then 29 else 28)
      else if m = 4 \<or> m = 6 \<or> m = 9 \<or> m = 11 then 30
      else 31)"

definition valid_date :: "int \<Rightarrow> int \<Rightarrow> int \<Rightarrow> bool" where
  "valid_date y m d =
     (1 \<le> y \<and> y \<le> 9999 \<and> 1 \<le> m \<and> m \<le> 12 \<and> 1 \<le> d \<and> d \<le> days_in_month y m)"

text \<open>
  The constructor converts its arguments to C integers before it checks the year, the
  month and the day, in this order. (The wording of the messages is that of CPython 3.8
  to 3.13.)
\<close>

definition c_int :: "int \<Rightarrow> bool" where
  "c_int n = (- 2147483648 \<le> n \<and> n \<le> 2147483647)"

definition date :: "int \<Rightarrow> int \<Rightarrow> int \<Rightarrow> error + pyval" where
  "date y m d =
     (if \<not> c_int y \<or> \<not> c_int m \<or> \<not> c_int d then Inl OverflowError
      else if y < 1 \<or> y > 9999
      then Inl (ValueError (''year '' @ str_of_int y @ '' is out of range''))
      else if m < 1 \<or> m > 12 then Inl (ValueError ''month must be in 1..12'')
      else if d < 1 \<or> d > days_in_month y m
      then Inl (ValueError ''day is out of range for month'')
      else Inr (PDate y m d))"

section \<open>Field, Name, Phone, Birthday\<close>

datatype field_class = Field | Name | Phone | Birthday

text \<open>An instance: its class and the attribute \<^verbatim>\<open>_value\<close>.\<close>

record field =
  cls :: field_class
  private_value :: pyval

text \<open>
  \<^verbatim>\<open>Phone.validate\<close>: \<^verbatim>\<open>value.isdigit()\<close> exists on text only; any other object
  has no such attribute.
\<close>

definition Phone_validate :: "pyval \<Rightarrow> error + unit" where
  "Phone_validate v =
     (case v of
        PStr s \<Rightarrow>
          (if \<not> isdigit s then Inl (ValueError ''Phone number should only contain digits.'')
           else Inr ())
      | _ \<Rightarrow> Inl AttributeError)"

text \<open>
  \<^verbatim>\<open>Birthday.validate\<close>. Unpacking anything but two parts, a part that is not a
  number and a date that does not exist in the year 2000 all raise \<open>ValueError\<close>
  inside the \<^verbatim>\<open>try\<close>, which replaces it by the format message; any other
  exception of the \<^verbatim>\<open>try\<close> block passes. The two range checks follow the source.
\<close>

definition Birthday_validate :: "pyval \<Rightarrow> error + unit" where
  "Birthday_validate v =
     (case v of
        PStr s \<Rightarrow>
          (case map py_int (split_on CHR ''.'' s) of
             [Some day, Some month] \<Rightarrow>
               (case date 2000 month day of
                  Inl (ValueError _) \<Rightarrow>
                    Inl (ValueError ''Invalid birthday format. Please use dd.mm format.'')
                | Inl e \<Rightarrow> Inl e
                | Inr _ \<Rightarrow>
                    if month < 1 \<or> month > 12 then Inl (ValueError ''Invalid month value.'')
                    else if day < 1 \<or> day > 31 then Inl (ValueError ''Invalid day value.'')
                    else Inr ())
           | _ \<Rightarrow> Inl (ValueError ''Invalid birthday format. Please use dd.mm format.''))
      | _ \<Rightarrow> Inl AttributeError)"

text \<open>\<^verbatim>\<open>self.validate(value)\<close>, dispatched on the class; \<open>Field\<close> and \<open>Name\<close> accept all.\<close>

definition validate :: "field_class \<Rightarrow> pyval \<Rightarrow> error + unit" where
  "validate c v =
     (case c of
        Phone \<Rightarrow> Phone_validate v
      | Birthday \<Rightarrow> Birthday_validate v
      | _ \<Rightarrow> Inr ())"

text \<open>\<^verbatim>\<open>Field.__init__\<close>: \<^verbatim>\<open>self._value = value\<close>.\<close>

definition Field_init :: "field_class \<Rightarrow> pyval \<Rightarrow> field" where
  "Field_init c v = \<lparr>cls = c, private_value = v\<rparr>"

text \<open>The property \<^verbatim>\<open>value\<close>: its getter and its setter.\<close>

definition get_value :: "field \<Rightarrow> pyval" where
  "get_value f = private_value f"

text \<open>
  The setter returns the field after the call and the outcome of the call: when
  \<^verbatim>\<open>validate\<close> raises, the assignment to \<^verbatim>\<open>_value\<close> is not reached.
\<close>

definition set_value :: "field \<Rightarrow> pyval \<Rightarrow> field \<times> (error + unit)" where
  "set_value f new_value =
     (case validate (cls f) new_value of
        Inl e \<Rightarrow> (f, Inl e)
      | Inr _ \<Rightarrow> (f\<lparr>private_value := new_value\<rparr>, Inr ()))"

section \<open>Equality and truth of Python values\<close>

text \<open>
  \<^verbatim>\<open>a == b\<close>: a boolean is the integer 0 or 1, lists compare element by element,
  dictionaries compare as mappings (the order of the keys does not count), and values
  of different kinds are unequal.
\<close>

fun py_eq :: "pyval \<Rightarrow> pyval \<Rightarrow> bool" where
  "py_eq PNone b = (b = PNone)"
| "py_eq (PBool x) b =
     (case b of PBool y \<Rightarrow> x = y | PInt n \<Rightarrow> (if x then 1 else 0) = n | _ \<Rightarrow> False)"
| "py_eq (PInt m) b =
     (case b of PBool y \<Rightarrow> m = (if y then 1 else 0) | PInt n \<Rightarrow> m = n | _ \<Rightarrow> False)"
| "py_eq (PStr s) b = (b = PStr s)"
| "py_eq (PDate y m d) b = (b = PDate y m d)"
| "py_eq (PList xs) b = (case b of PList ys \<Rightarrow> list_all2 py_eq xs ys | _ \<Rightarrow> False)"
| "py_eq (PDict kvs) b =
     (case b of
        PDict kws \<Rightarrow>
          length kvs = length kws \<and>
          list_all (\<lambda>kv. case map_of kws (fst kv) of
                            None \<Rightarrow> False
                          | Some w \<Rightarrow> py_eq (snd kv) w) kvs
      | _ \<Rightarrow> False)"

text \<open>The truth value of an object in a condition.\<close>

fun truthy :: "pyval \<Rightarrow> bool" where
  "truthy PNone = False"
| "truthy (PBool b) = b"
| "truthy (PInt n) = (n \<noteq> 0)"
| "truthy (PStr s) = (s \<noteq> [])"
| "truthy (PList xs) = (xs \<noteq> [])"
| "truthy (PDict kvs) = (kvs \<noteq> [])"
| "truthy (PDate y m d) = True"

section \<open>Record\<close>

record Record =
  name :: field
  phone :: "field list"
  birthday :: "field option"

text \<open>\<^verbatim>\<open>Record.__init__(name, birthday=None)\<close>.\<close>

definition Record_init :: "pyval \<Rightarrow> pyval \<Rightarrow> Record" where
  "Record_init n b =
     \<lparr>name = Field_init Name n,
      phone = [],
      birthday = (if truthy b then Some (Field_init Birthday b) else None)\<rparr>"

definition add_phone :: "Record \<Rightarrow> pyval \<Rightarrow> Record" where
  "add_phone r p = r\<lparr>phone := phone r @ [Field_init Phone p]\<rparr>"

definition remove_phone :: "Record \<Rightarrow> pyval \<Rightarrow> Record" where
  "remove_phone r p = r\<lparr>phone := filter (\<lambda>q. \<not> py_eq (get_value q) p) (phone r)\<rparr>"

text \<open>
  The loop of \<^verbatim>\<open>edit_phone\<close> over \<^verbatim>\<open>self.phone\<close>: the first phone equal to
  \<^verbatim>\<open>old_phone\<close> is assigned through the setter and the loop ends, also when the
  setter raises.
\<close>

fun edit_phone_loop :: "field list \<Rightarrow> pyval \<Rightarrow> pyval \<Rightarrow> field list \<times> (error + unit)" where
  "edit_phone_loop [] old_phone new_phone = ([], Inr ())"
| "edit_phone_loop (p # ps) old_phone new_phone =
     (if py_eq (get_value p) old_phone
      then (case set_value p new_phone of (p', res) \<Rightarrow> (p' # ps, res))
      else (case edit_phone_loop ps old_phone new_phone of (ps', res) \<Rightarrow> (p # ps', res)))"

definition edit_phone :: "Record \<Rightarrow> pyval \<Rightarrow> pyval \<Rightarrow> Record \<times> (error + unit)" where
  "edit_phone r old_phone new_phone =
     (case edit_phone_loop (phone r) old_phone new_phone of
        (ps, res) \<Rightarrow> (r\<lparr>phone := ps\<rparr>, res))"

subsection \<open>Days to the next birthday\<close>

definition days_before_year :: "int \<Rightarrow> int" where
  "days_before_year y = (y - 1) * 365 + (y - 1) div 4 - (y - 1) div 100 + (y - 1) div 400"

definition days_before_month :: "int \<Rightarrow> int \<Rightarrow> int" where
  "days_before_month y m = sum_list (map (days_in_month y) [1..m - 1])"

text \<open>\<^verbatim>\<open>date.toordinal()\<close>: 1 for the first of January of the year 1.\<close>

definition toordinal :: "int \<Rightarrow> int \<Rightarrow> int \<Rightarrow> int" where
  "toordinal y m d = days_before_year y + days_before_month y m + d"

definition date_less :: "int \<times> int \<times> int \<Rightarrow> int \<times> int \<times> int \<Rightarrow> bool" where
  "date_less a b =
     (case a of (y, m, d) \<Rightarrow> case b of (y', m', d') \<Rightarrow>
        y < y' \<or> (y = y' \<and> (m < m' \<or> (m = m' \<and> d < d'))))"

text \<open>
  \<^verbatim>\<open>days_to_birthday\<close>, with \<^verbatim>\<open>date.today()\<close> as the argument \<open>today\<close> (year,
  month, day). The result is \<open>None\<close> for Python's \<^verbatim>\<open>None\<close>. The method
  \<^verbatim>\<open>replace(year=...)\<close> is that of the stored value: a date builds the date of the
  new year (and raises \<open>ValueError\<close> when there is none), text has a \<^verbatim>\<open>replace\<close>
  that takes no keyword argument, and the other values have no such method. An
  instance of \<open>Birthday\<close> is always true in a condition.
\<close>

definition days_to_birthday :: "int \<times> int \<times> int \<Rightarrow> Record \<Rightarrow> error + int option" where
  "days_to_birthday today r =
     (case birthday r of
        None \<Rightarrow> Inr None
      | Some b \<Rightarrow>
          (case today of (ty, tm, td) \<Rightarrow>
            (case get_value b of
               PDate y m d \<Rightarrow>
                 (case date ty m d of
                    Inl e \<Rightarrow> Inl e
                  | Inr current_year_birthday \<Rightarrow>
                      if date_less (ty, m, d) today
                      then (case date (ty + 1) m d of
                              Inl e \<Rightarrow> Inl e
                            | Inr next_birthday \<Rightarrow>
                                Inr (Some (toordinal (ty + 1) m d - toordinal ty tm td)))
                      else Inr (Some (toordinal ty m d - toordinal ty tm td)))
             | PStr s \<Rightarrow> Inl TypeError
             | _ \<Rightarrow> Inl AttributeError)))"

section \<open>Dictionaries\<close>

text \<open>
  A \<^verbatim>\<open>dict\<close> keeps its keys in the order of their first insertion: an association
  list. A key must be hashable (lists and dictionaries are not), and two keys are the
  same when they are equal as Python values. Assigning to a key that is present
  replaces the value and keeps the stored key and its place.
\<close>

fun hashable :: "pyval \<Rightarrow> bool" where
  "hashable (PList xs) = False"
| "hashable (PDict kvs) = False"
| "hashable v = True"

fun dict_lookup :: "(pyval \<times> 'v) list \<Rightarrow> pyval \<Rightarrow> 'v option" where
  "dict_lookup [] k = None"
| "dict_lookup ((k', v) # d) k = (if py_eq k' k then Some v else dict_lookup d k)"

fun dict_update :: "(pyval \<times> 'v) list \<Rightarrow> pyval \<Rightarrow> 'v \<Rightarrow> (pyval \<times> 'v) list" where
  "dict_update [] k v = [(k, v)]"
| "dict_update ((k', v') # d) k v =
     (if py_eq k' k then (k', v) # d else (k', v') # dict_update d k v)"

text \<open>\<^verbatim>\<open>key in d\<close>, \<^verbatim>\<open>d[key]\<close> and \<^verbatim>\<open>d[key] = v\<close>.\<close>

definition dict_contains :: "(pyval \<times> 'v) list \<Rightarrow> pyval \<Rightarrow> error + bool" where
  "dict_contains d k =
     (if \<not> hashable k then Inl TypeError else Inr (dict_lookup d k \<noteq> None))"

definition dict_getitem :: "(pyval \<times> 'v) list \<Rightarrow> pyval \<Rightarrow> error + 'v" where
  "dict_getitem d k =
     (if \<not> hashable k then Inl TypeError
      else (case dict_lookup d k of None \<Rightarrow> Inl KeyError | Some v \<Rightarrow> Inr v))"

definition dict_setitem :: "(pyval \<times> 'v) list \<Rightarrow> pyval \<Rightarrow> 'v \<Rightarrow> error + (pyval \<times> 'v) list" where
  "dict_setitem d k v = (if \<not> hashable k then Inl TypeError else Inr (dict_update d k v))"

definition dict_values :: "(pyval \<times> 'v) list \<Rightarrow> 'v list" where
  "dict_values d = map snd d"

section \<open>Operations on dynamically typed values\<close>

text \<open>\<^verbatim>\<open>v[key]\<close> with a text key: only a dictionary can be subscripted by text.\<close>

definition py_getitem :: "pyval \<Rightarrow> string \<Rightarrow> error + pyval" where
  "py_getitem v key =
     (case v of
        PDict kvs \<Rightarrow> (case map_of kvs key of None \<Rightarrow> Inl KeyError | Some x \<Rightarrow> Inr x)
      | _ \<Rightarrow> Inl TypeError)"

text \<open>
  \<^verbatim>\<open>for x in v\<close>: a list gives its elements, text its characters, a dictionary its
  keys; nothing else can be iterated.
\<close>

definition py_iter :: "pyval \<Rightarrow> error + pyval list" where
  "py_iter v =
     (case v of
        PList xs \<Rightarrow> Inr xs
      | PStr s \<Rightarrow> Inr (map (\<lambda>c. PStr [c]) s)
      | PDict kvs \<Rightarrow> Inr (map (\<lambda>kv. PStr (fst kv)) kvs)
      | _ \<Rightarrow> Inl TypeError)"

text \<open>
  \<^verbatim>\<open>x in v\<close>: in text, \<open>x\<close> must be text and the test is for a substring; in a
  list it is for an equal element; in a dictionary for a key, which must be hashable.
\<close>

definition py_in :: "pyval \<Rightarrow> pyval \<Rightarrow> error + bool" where
  "py_in x v =
     (case v of
        PStr s \<Rightarrow> (case x of PStr q \<Rightarrow> Inr (sublist q s) | _ \<Rightarrow> Inl TypeError)
      | PList ys \<Rightarrow> Inr (list_ex (\<lambda>y. py_eq y x) ys)
      | PDict kvs \<Rightarrow>
          (if \<not> hashable x then Inl TypeError
           else Inr (list_ex (\<lambda>kv. py_eq (PStr (fst kv)) x) kvs))
      | _ \<Rightarrow> Inl TypeError)"

text \<open>\<^verbatim>\<open>str.lower()\<close> on ASCII text.\<close>

definition lower_char :: "char \<Rightarrow> char" where
  "lower_char c =
     (case map_of (zip ''ABCDEFGHIJKLMNOPQRSTUVWXYZ'' ''abcdefghijklmnopqrstuvwxyz'') c of
        None \<Rightarrow> c
      | Some l \<Rightarrow> l)"

definition lower :: "string \<Rightarrow> string" where
  "lower s = map lower_char s"

text \<open>The method \<^verbatim>\<open>lower\<close> of an arbitrary value: only text has it.\<close>

definition py_lower :: "pyval \<Rightarrow> error + string" where
  "py_lower v = (case v of PStr s \<Rightarrow> Inr (lower s) | _ \<Rightarrow> Inl AttributeError)"

section \<open>AddressBook\<close>

record AddressBook =
  data :: "(pyval \<times> Record) list"

definition AddressBook_init :: AddressBook where
  "AddressBook_init = \<lparr>data = []\<rparr>"

text \<open>
  Methods that change the book return the book after the call and the outcome of the
  call.
\<close>

definition add_record :: "AddressBook \<Rightarrow> Record \<Rightarrow> AddressBook \<times> (error + unit)" where
  "add_record book r =
     (case dict_setitem (data book) (get_value (name r)) r of
        Inl e \<Rightarrow> (book, Inl e)
      | Inr d \<Rightarrow> (book\<lparr>data := d\<rparr>, Inr ()))"

text \<open>\<^verbatim>\<open>__iter__\<close>: the records in the order of the dictionary.\<close>

definition iter_book :: "AddressBook \<Rightarrow> Record list" where
  "iter_book book = dict_values (data book)"

subsection \<open>Saving\<close>

text \<open>
  What \<^verbatim>\<open>json.dump\<close> is given: plain values, instances of the program's classes,
  and lists and dictionaries of these. \<^verbatim>\<open>record.__dict__\<close> is the dictionary of the
  record's attributes, which are instances.
\<close>

datatype pyobj =
    Plain pyval
  | Instance field
  | ListOf "pyobj list"
  | DictOf "(string \<times> pyobj) list"

definition Record_dict :: "Record \<Rightarrow> pyobj" where
  "Record_dict r =
     DictOf [(''name'', Instance (name r)),
             (''phone'', ListOf (map Instance (phone r))),
             (''birthday'', (case birthday r of None \<Rightarrow> Plain PNone | Some b \<Rightarrow> Instance b))]"

text \<open>A plain value that the encoder can write: everything but a date.\<close>

fun json_plain :: "pyval \<Rightarrow> bool" where
  "json_plain (PDate y m d) = False"
| "json_plain (PList xs) = list_all json_plain xs"
| "json_plain (PDict kvs) = list_all (\<lambda>kv. json_plain (snd kv)) kvs"
| "json_plain v = True"

text \<open>
  The document the encoder writes, as the value \<^verbatim>\<open>json.load\<close> reads back from it;
  \<open>None\<close> when the encoder meets an object it cannot serialise and raises
  \<open>TypeError\<close>.
\<close>

fun json_encode :: "pyobj \<Rightarrow> pyval option" where
  "json_encode (Plain v) = (if json_plain v then Some v else None)"
| "json_encode (Instance f) = None"
| "json_encode (ListOf xs) = map_option PList (those (map json_encode xs))"
| "json_encode (DictOf kvs) =
     map_option PDict
       (those (map (\<lambda>kv. map_option (Pair (fst kv)) (json_encode (snd kv))) kvs))"

text \<open>
  The content of a file: JSON text, stood for by the value \<^verbatim>\<open>json.load\<close> gives for
  it, or text that is not JSON, with the message of the decoder's error.
\<close>

datatype file_content = Json pyval | NotJson string

type_synonym files = "string \<Rightarrow> file_content option"

text \<open>
  \<^verbatim>\<open>save_address_book\<close>. The file is opened for writing before the document is
  encoded, and \<^verbatim>\<open>json.dump\<close> writes while it encodes: when the encoder raises, the
  file is left with the beginning of a document. The encoder can only fail at the name
  of the first contact, an instance of \<open>Name\<close>, so the file then holds the 23
  characters \<^verbatim>\<open>{"contacts": [{"name": \<close>, which the decoder rejects with the message
  below. (Every file name can be opened for writing in this model.)
\<close>

definition save_address_book :: "AddressBook \<Rightarrow> files \<Rightarrow> string \<Rightarrow> files \<times> (error + unit)" where
  "save_address_book book fs filename =
     (let d = DictOf [(''contacts'', ListOf (map Record_dict (dict_values (data book))))]
      in case json_encode d of
           None \<Rightarrow>
             (fs(filename \<mapsto> NotJson ''Expecting value: line 1 column 24 (char 23)''),
              Inl TypeError)
         | Some doc \<Rightarrow> (fs(filename \<mapsto> Json doc), Inr ()))"

subsection \<open>Loading\<close>

text \<open>The inner loop of \<^verbatim>\<open>load_address_book\<close>: \<^verbatim>\<open>record.add_phone(phone['value'])\<close>.\<close>

fun load_phones :: "Record \<Rightarrow> pyval list \<Rightarrow> error + Record" where
  "load_phones r [] = Inr r"
| "load_phones r (p # ps) =
     (case py_getitem p ''value'' of
        Inl e \<Rightarrow> Inl e
      | Inr v \<Rightarrow> load_phones (add_phone r v) ps)"

definition load_record :: "pyval \<Rightarrow> error + Record" where
  "load_record record_data =
     (case py_getitem record_data ''name'' of
        Inl e \<Rightarrow> Inl e
      | Inr n \<Rightarrow>
     (case py_getitem record_data ''birthday'' of
        Inl e \<Rightarrow> Inl e
      | Inr b \<Rightarrow>
     (case py_getitem record_data ''phone'' of
        Inl e \<Rightarrow> Inl e
      | Inr ps \<Rightarrow>
     (case py_iter ps of
        Inl e \<Rightarrow> Inl e
      | Inr phones \<Rightarrow> load_phones (Record_init n b) phones))))"

fun load_records :: "pyval list \<Rightarrow> error + Record list" where
  "load_records [] = Inr []"
| "load_records (record_data # rest) =
     (case load_record record_data of
        Inl e \<Rightarrow> Inl e
      | Inr r \<Rightarrow>
          (case load_records rest of
             Inl e \<Rightarrow> Inl e
           | Inr rs \<Rightarrow> Inr (r # rs)))"

text \<open>The comprehension \<^verbatim>\<open>{record.name.value: record for record in records}\<close>.\<close>

fun dict_of_records :: "(pyval \<times> Record) list \<Rightarrow> Record list \<Rightarrow> error + (pyval \<times> Record) list" where
  "dict_of_records d [] = Inr d"
| "dict_of_records d (r # rs) =
     (case dict_setitem d (get_value (name r)) r of
        Inl e \<Rightarrow> Inl e
      | Inr d' \<Rightarrow> dict_of_records d' rs)"

text \<open>
  \<^verbatim>\<open>load_address_book\<close>: \<^verbatim>\<open>self.data\<close> is assigned last, so an exception leaves
  the book as it was.
\<close>

definition load_address_book :: "AddressBook \<Rightarrow> files \<Rightarrow> string \<Rightarrow> AddressBook \<times> (error + unit)" where
  "load_address_book book fs filename =
     (case fs filename of
        None \<Rightarrow> (book, Inl FileNotFoundError)
      | Some (NotJson msg) \<Rightarrow> (book, Inl (ValueError msg))
      | Some (Json doc) \<Rightarrow>
          (case py_getitem doc ''contacts'' of
             Inl e \<Rightarrow> (book, Inl e)
           | Inr contacts \<Rightarrow>
          (case py_iter contacts of
             Inl e \<Rightarrow> (book, Inl e)
           | Inr items \<Rightarrow>
          (case load_records items of
             Inl e \<Rightarrow> (book, Inl e)
           | Inr records \<Rightarrow>
          (case dict_of_records [] records of
             Inl e \<Rightarrow> (book, Inl e)
           | Inr d \<Rightarrow> (book\<lparr>data := d\<rparr>, Inr ()))))))"

subsection \<open>Searching\<close>

text \<open>\<^verbatim>\<open>any(query in phone.value for phone in record.phone)\<close>, which stops at the first hit.\<close>

fun any_phone :: "pyval \<Rightarrow> field list \<Rightarrow> error + bool" where
  "any_phone query [] = Inr False"
| "any_phone query (p # ps) =
     (case py_in query (get_value p) of
        Inl e \<Rightarrow> Inl e
      | Inr hit \<Rightarrow> if hit then Inr True else any_phone query ps)"

text \<open>The condition of \<^verbatim>\<open>search_contacts\<close> for one record.\<close>

definition search_match :: "pyval \<Rightarrow> Record \<Rightarrow> error + bool" where
  "search_match query r =
     (case py_lower (get_value (name r)) of
        Inl e \<Rightarrow> Inl e
      | Inr lowered \<Rightarrow>
          (case py_in query (PStr lowered) of
             Inl e \<Rightarrow> Inl e
           | Inr hit \<Rightarrow> if hit then Inr True else any_phone query (phone r)))"

fun search_loop :: "pyval \<Rightarrow> Record list \<Rightarrow> error + Record list" where
  "search_loop query [] = Inr []"
| "search_loop query (r # rs) =
     (case search_match query r of
        Inl e \<Rightarrow> Inl e
      | Inr hit \<Rightarrow>
          (case search_loop query rs of
             Inl e \<Rightarrow> Inl e
           | Inr results \<Rightarrow> Inr (if hit then r # results else results)))"

definition search_contacts :: "AddressBook \<Rightarrow> pyval \<Rightarrow> error + Record list" where
  "search_contacts book query = search_loop query (dict_values (data book))"

section \<open>Text of values\<close>

definition zero_pad :: "nat \<Rightarrow> string \<Rightarrow> string" where
  "zero_pad w s = replicate (w - length s) CHR ''0'' @ s"

text \<open>\<^verbatim>\<open>sep.join(parts)\<close> on text.\<close>

fun join :: "string \<Rightarrow> string list \<Rightarrow> string" where
  "join sep [] = []"
| "join sep [x] = x"
| "join sep (x # y # ys) = x @ sep @ join sep (y # ys)"

text \<open>
  \<^verbatim>\<open>repr\<close> of text: in single quotes, or in double quotes when the text has a single
  quote and no double quote; the quote, the backslash and the control characters are
  escaped.
\<close>

definition escape_char :: "char \<Rightarrow> char \<Rightarrow> string" where
  "escape_char quote c =
     (if c = quote \<or> c = CHR 0x5C then [CHR 0x5C, c]
      else if c = CHR 0x09 then [CHR 0x5C, CHR ''t'']
      else if c = CHR 0x0A then [CHR 0x5C, CHR ''n'']
      else if c = CHR 0x0D then [CHR 0x5C, CHR ''r'']
      else if (of_char c :: nat) < 32 \<or> (of_char c :: nat) = 127
      then [CHR 0x5C, CHR ''x'',
            ''0123456789abcdef'' ! (of_char c div 16), ''0123456789abcdef'' ! (of_char c mod 16)]
      else [c])"

definition repr_str :: "string \<Rightarrow> string" where
  "repr_str s =
     (let quote = (if CHR 0x27 \<in> set s \<and> CHR 0x22 \<notin> set s then CHR 0x22 else CHR 0x27)
      in quote # concat (map (escape_char quote) s) @ [quote])"

fun py_repr :: "pyval \<Rightarrow> string" where
  "py_repr PNone = ''None''"
| "py_repr (PBool b) = (if b then ''True'' else ''False'')"
| "py_repr (PInt n) = str_of_int n"
| "py_repr (PStr s) = repr_str s"
| "py_repr (PList xs) = ''['' @ join '', '' (map py_repr xs) @ '']''"
| "py_repr (PDict kvs) =
     ''{'' @ join '', '' (map (\<lambda>kv. repr_str (fst kv) @ '': '' @ py_repr (snd kv)) kvs) @ ''}''"
| "py_repr (PDate y m d) =
     ''datetime.date('' @ str_of_int y @ '', '' @ str_of_int m @ '', '' @ str_of_int d @ '')''"

text \<open>\<^verbatim>\<open>str(v)\<close>, which is what an f-string writes for \<^verbatim>\<open>{v}\<close>.\<close>

definition py_str :: "pyval \<Rightarrow> string" where
  "py_str v =
     (case v of
        PStr s \<Rightarrow> s
      | PDate y m d \<Rightarrow>
          zero_pad 4 (str_of_int y) @ ''-'' @ zero_pad 2 (str_of_int m) @ ''-'' @
          zero_pad 2 (str_of_int d)
      | _ \<Rightarrow> py_repr v)"

text \<open>\<^verbatim>\<open>", ".join(values)\<close>: every value must be text.\<close>

fun texts :: "pyval list \<Rightarrow> string list option" where
  "texts [] = Some []"
| "texts (v # vs) =
     (case v of
        PStr s \<Rightarrow> map_option (Cons s) (texts vs)
      | _ \<Rightarrow> None)"

definition py_join :: "string \<Rightarrow> pyval list \<Rightarrow> error + string" where
  "py_join sep vs = (case texts vs of None \<Rightarrow> Inl TypeError | Some ss \<Rightarrow> Inr (join sep ss))"

section \<open>Command handlers\<close>

text \<open>
  The decorator \<^verbatim>\<open>input_error\<close>, applied to the outcome of the wrapped function: three
  kinds of exception become the response, every other outcome passes.
\<close>

definition input_error :: "error + string \<Rightarrow> error + string" where
  "input_error res =
     (case res of
        Inl KeyError \<Rightarrow> Inr ''Contact not found.''
      | Inl (ValueError msg) \<Rightarrow> Inr msg
      | Inl IndexError \<Rightarrow> Inr ''Invalid command.''
      | _ \<Rightarrow> res)"

definition handle_hello :: string where
  "handle_hello = ''How can I help you?''"

text \<open>
  Each handler is given as the function the source defines (\<open>_body\<close>) and as the
  decorated function that the program calls. A handler returns the book after the call
  with the outcome.
\<close>

definition handle_add_body :: "pyval \<Rightarrow> pyval \<Rightarrow> AddressBook \<Rightarrow> pyval \<Rightarrow> AddressBook \<times> (error + string)" where
  "handle_add_body n p address_book b =
     (case dict_contains (data address_book) n of
        Inl e \<Rightarrow> (address_book, Inl e)
      | Inr present \<Rightarrow>
          if present then (address_book, Inr ''Contact added successfully.'')
          else (case add_record address_book (add_phone (Record_init n b) p) of
                  (book', Inl e) \<Rightarrow> (book', Inl e)
                | (book', Inr _) \<Rightarrow> (book', Inr ''Contact added'')))"

definition handle_add :: "pyval \<Rightarrow> pyval \<Rightarrow> AddressBook \<Rightarrow> pyval \<Rightarrow> AddressBook \<times> (error + string)" where
  "handle_add n p address_book b =
     (case handle_add_body n p address_book b of (book', res) \<Rightarrow> (book', input_error res))"

text \<open>
  \<^verbatim>\<open>handle_change\<close> adds the phone to the record stored under the name; the record is
  changed in place, so the dictionary holds the changed record under the same key.
\<close>

definition handle_change_body :: "pyval \<Rightarrow> pyval \<Rightarrow> AddressBook \<Rightarrow> AddressBook \<times> (error + string)" where
  "handle_change_body n p address_book =
     (case dict_contains (data address_book) n of
        Inl e \<Rightarrow> (address_book, Inl e)
      | Inr present \<Rightarrow>
          if \<not> present then (address_book, Inr ''Contact not found.'')
          else (case dict_getitem (data address_book) n of
                  Inl e \<Rightarrow> (address_book, Inl e)
                | Inr r \<Rightarrow>
                    (address_book\<lparr>data := dict_update (data address_book) n (add_phone r p)\<rparr>,
                     Inr ''Phone number changed successfully.'')))"

definition handle_change :: "pyval \<Rightarrow> pyval \<Rightarrow> AddressBook \<Rightarrow> AddressBook \<times> (error + string)" where
  "handle_change n p address_book =
     (case handle_change_body n p address_book of (book', res) \<Rightarrow> (book', input_error res))"

definition handle_phone_body :: "pyval \<Rightarrow> AddressBook \<Rightarrow> error + string" where
  "handle_phone_body n address_book =
     (case dict_contains (data address_book) n of
        Inl e \<Rightarrow> Inl e
      | Inr present \<Rightarrow>
          if \<not> present then Inr ''Contact not found.''
          else (case dict_getitem (data address_book) n of
                  Inl e \<Rightarrow> Inl e
                | Inr r \<Rightarrow> py_join '', '' (map get_value (phone r))))"

definition handle_phone :: "pyval \<Rightarrow> AddressBook \<Rightarrow> error + string" where
  "handle_phone n address_book = input_error (handle_phone_body n address_book)"

definition handle_days_to_birthday_body :: "int \<times> int \<times> int \<Rightarrow> pyval \<Rightarrow> AddressBook \<Rightarrow> error + string" where
  "handle_days_to_birthday_body today n address_book =
     (case dict_contains (data address_book) n of
        Inl e \<Rightarrow> Inl e
      | Inr present \<Rightarrow>
          if \<not> present then Inr ''Contact not found.''
          else (case dict_getitem (data address_book) n of
                  Inl e \<Rightarrow> Inl e
                | Inr r \<Rightarrow>
                    (case days_to_birthday today r of
                       Inl e \<Rightarrow> Inl e
                     | Inr None \<Rightarrow> Inr ''No birthday date provided.''
                     | Inr (Some days) \<Rightarrow>
                         Inr (''Days until '' @ py_str n @ [CHR 0x27] @ ''s birthday: '' @
                              str_of_int days))))"

definition handle_days_to_birthday :: "int \<times> int \<times> int \<Rightarrow> pyval \<Rightarrow> AddressBook \<Rightarrow> error + string" where
  "handle_days_to_birthday today n address_book =
     input_error (handle_days_to_birthday_body today n address_book)"

subsection \<open>Listing\<close>

text \<open>\<^verbatim>\<open>xs[start:stop]\<close>: a negative index counts from the end, and both are clamped.\<close>

definition py_slice :: "'a list \<Rightarrow> int \<Rightarrow> int \<Rightarrow> 'a list" where
  "py_slice xs start stop =
     (let n = int (length xs);
          clamp = (\<lambda>i. if i < 0 then max 0 (i + n) else min i n)
      in take (nat (clamp stop - clamp start)) (drop (nat (clamp start)) xs))"

text \<open>The white space of \<^verbatim>\<open>str.split()\<close> and \<^verbatim>\<open>str.strip()\<close> in ASCII.\<close>

definition is_space :: "char \<Rightarrow> bool" where
  "is_space c = (of_char c \<in> {9, 10, 11, 12, 13, 28, 29, 30, 31, 32 :: nat})"

definition strip :: "string \<Rightarrow> string" where
  "strip s = rev (dropWhile is_space (rev (dropWhile is_space s)))"

text \<open>
  The lines of a listing, one per record: \<^verbatim>\<open>f"{record.name.value}: {', '.join(phones)}\n"\<close>.
\<close>

fun contact_lines :: "Record list \<Rightarrow> error + string" where
  "contact_lines [] = Inr []"
| "contact_lines (r # rs) =
     (case py_join '', '' (map get_value (phone r)) of
        Inl e \<Rightarrow> Inl e
      | Inr phones \<Rightarrow>
          (case contact_lines rs of
             Inl e \<Rightarrow> Inl e
           | Inr rest \<Rightarrow>
               Inr (py_str (get_value (name r)) @ '': '' @ phones @ [CHR 0x0A] @ rest)))"

definition handle_show_all :: "AddressBook \<Rightarrow> int \<Rightarrow> int \<Rightarrow> error + string" where
  "handle_show_all address_book page page_size =
     (if data address_book = [] then Inr ''No contacts found.''
      else if page_size = 0 then Inl ZeroDivisionError
      else
        (let total_pages = (int (length (data address_book)) + page_size - 1) div page_size
         in if page < 1 \<or> page > total_pages then Inr ''Invalid page number.''
            else
              (let start_index = (page - 1) * page_size;
                   end_index = start_index + page_size;
                   contacts = py_slice (dict_values (data address_book)) start_index end_index
               in case contact_lines contacts of
                    Inl e \<Rightarrow> Inl e
                  | Inr output \<Rightarrow>
                      Inr (strip (output @ ''Page '' @ str_of_int page @ ''/'' @
                                  str_of_int total_pages)))))"

section \<open>The command loop\<close>

text \<open>\<^verbatim>\<open>str.split()\<close>: the words between runs of white space.\<close>

fun split_words :: "string \<Rightarrow> string \<Rightarrow> string list" where
  "split_words cur [] = (if cur = [] then [] else [cur])"
| "split_words cur (c # cs) =
     (if is_space c then (if cur = [] then split_words [] cs else cur # split_words [] cs)
      else split_words (cur @ [c]) cs)"

definition split :: "string \<Rightarrow> string list" where
  "split s = split_words [] s"

text \<open>
  The \<open>ValueError\<close> of unpacking a list of \<open>got\<close> values into \<open>expected\<close> names, and
  that of \<^verbatim>\<open>int\<close>. (The wording of the interpreter's messages is that of CPython 3.8
  to 3.13.)
\<close>

definition unpack_error :: "nat \<Rightarrow> nat \<Rightarrow> error" where
  "unpack_error expected got =
     (if got < expected
      then ValueError (''not enough values to unpack (expected '' @ decimal expected @
                       '', got '' @ decimal got @ '')'')
      else ValueError (''too many values to unpack (expected '' @ decimal expected @ '')''))"

definition int_of_text :: "string \<Rightarrow> error + int" where
  "int_of_text s =
     (case py_int s of
        None \<Rightarrow> Inl (ValueError (''invalid literal for int() with base 10: '' @ repr_str s))
      | Some n \<Rightarrow> Inr n)"

text \<open>
  What one turn of the loop ends with: a response that is printed, the \<^verbatim>\<open>break\<close> of
  the exit commands (which print nothing), or an exception that nothing catches.
\<close>

datatype outcome = Response string | Exit | Crash error

definition outcome_of :: "error + string \<Rightarrow> outcome" where
  "outcome_of res = (case res of Inl e \<Rightarrow> Crash e | Inr response \<Rightarrow> Response response)"

text \<open>The response of the \<^verbatim>\<open>search\<close> command for a list of results.\<close>

definition search_response :: "Record list \<Rightarrow> error + string" where
  "search_response results =
     (if results \<noteq> []
      then (case contact_lines results of
              Inl e \<Rightarrow> Inl e
            | Inr ls \<Rightarrow> Inr (''Search results:'' @ [CHR 0x0A] @ ls))
      else Inr ''No contacts found for the search query.'')"

text \<open>
  One turn of \<^verbatim>\<open>main\<close> on the line that \<^verbatim>\<open>input\<close> returned: the book and the
  files after the turn, and its outcome. \<open>today\<close> is \<^verbatim>\<open>date.today()\<close>.
\<close>

definition main_step :: "int \<times> int \<times> int \<Rightarrow> AddressBook \<Rightarrow> files \<Rightarrow> string \<Rightarrow> AddressBook \<times> files \<times> outcome" where
  "main_step today address_book fs line =
     (let command = lower line; params = split command in
      if command = ''hello'' then (address_book, fs, Response handle_hello)
      else if prefix ''add'' command then
        (case params of
           [_, n, p] \<Rightarrow>
             (case handle_add (PStr n) (PStr p) address_book PNone of
                (book', res) \<Rightarrow> (book', fs, outcome_of res))
         | [_, n, p, b] \<Rightarrow>
             (case handle_add (PStr n) (PStr p) address_book (PStr b) of
                (book', res) \<Rightarrow> (book', fs, outcome_of res))
         | _ \<Rightarrow> (address_book, fs, Response ''Invalid command.''))
      else if prefix ''change'' command then
        (case params of
           [_, n, p] \<Rightarrow>
             (case handle_change (PStr n) (PStr p) address_book of
                (book', res) \<Rightarrow> (book', fs, outcome_of res))
         | _ \<Rightarrow> (address_book, fs, Crash (unpack_error 3 (length params))))
      else if prefix ''phone'' command then
        (case params of
           [_, n] \<Rightarrow> (address_book, fs, outcome_of (handle_phone (PStr n) address_book))
         | _ \<Rightarrow> (address_book, fs, Crash (unpack_error 2 (length params))))
      else if prefix ''days to birthday'' command then
        (case params of
           [_, n] \<Rightarrow>
             (address_book, fs, outcome_of (handle_days_to_birthday today (PStr n) address_book))
         | _ \<Rightarrow> (address_book, fs, Crash (unpack_error 2 (length params))))
      else if prefix ''show all'' command then
        (case (if length params > 2 then int_of_text (params ! 2) else Inr 1) of
           Inl e \<Rightarrow> (address_book, fs, Crash e)
         | Inr page \<Rightarrow> (address_book, fs, outcome_of (handle_show_all address_book page 5)))
      else if prefix ''save'' command then
        (case params of
           [_, filename] \<Rightarrow>
             (case save_address_book address_book fs filename of
                (fs', Inl e) \<Rightarrow> (address_book, fs', Crash e)
              | (fs', Inr _) \<Rightarrow> (address_book, fs', Response ''Address book saved.''))
         | _ \<Rightarrow> (address_book, fs, Crash (unpack_error 2 (length params))))
      else if prefix ''load'' command then
        (case params of
           [_, filename] \<Rightarrow>
             (case load_address_book address_book fs filename of
                (book', Inl e) \<Rightarrow> (book', fs, Crash e)
              | (book', Inr _) \<Rightarrow> (book', fs, Response ''Address book loaded.''))
         | _ \<Rightarrow> (address_book, fs, Crash (unpack_error 2 (length params))))
      else if prefix ''search'' command then
        (case params of
           [_, query] \<Rightarrow>
             (case search_contacts address_book (PStr (lower query)) of
                Inl e \<Rightarrow> (address_book, fs, Crash e)
              | Inr results \<Rightarrow> (address_book, fs, outcome_of (search_response results)))
         | _ \<Rightarrow> (address_book, fs, Crash (unpack_error 2 (length params))))
      else if command \<in> set [''good bye'', ''close'', ''exit''] then (address_book, fs, Exit)
      else (address_book, fs, Response ''Invalid command.''))"

text \<open>
  The loop of \<^verbatim>\<open>main\<close> over the lines of the input: the book and the files at the
  end, the responses printed, and the exception that ended the process, if one did.
  When the input is used up, \<^verbatim>\<open>input\<close> raises \<open>EOFError\<close>.
\<close>

fun main_loop :: "int \<times> int \<times> int \<Rightarrow> AddressBook \<Rightarrow> files \<Rightarrow> string list \<Rightarrow> AddressBook \<times> files \<times> string list \<times> error option" where
  "main_loop today address_book fs [] = (address_book, fs, [], Some EOFError)"
| "main_loop today address_book fs (line # rest) =
     (case main_step today address_book fs line of
        (book', fs', Response response) \<Rightarrow>
          (case main_loop today book' fs' rest of
             (book'', fs'', printed, ended) \<Rightarrow> (book'', fs'', response # printed, ended))
      | (book', fs', Exit) \<Rightarrow> (book', fs', [], None)
      | (book', fs', Crash e) \<Rightarrow> (book', fs', [], Some e))"

definition main :: "int \<times> int \<times> int \<Rightarrow> files \<Rightarrow> string list \<Rightarrow> AddressBook \<times> files \<times> string list \<times> error option" where
  "main today fs lines = main_loop today AddressBook_init fs lines"

section \<open>Example values\<close>

text \<open>A contact with three phones, the first and the last equal.\<close>

definition john_two_phones :: Record where
  "john_two_phones =
     add_phone (add_phone (add_phone (Record_init (PStr ''john'') PNone) (PStr ''111''))
       (PStr ''222'')) (PStr ''111'')"

text \<open>A book with the one contact \<^verbatim>\<open>John\<close>, and one with \<^verbatim>\<open>ann\<close> added.\<close>

definition book_John :: AddressBook where
  "book_John =
     fst (add_record AddressBook_init
            (add_phone (Record_init (PStr ''John'') PNone) (PStr ''123'')))"

definition book_two :: AddressBook where
  "book_two =
     fst (add_record book_John (add_phone (Record_init (PStr ''ann'') PNone) (PStr ''555'')))"

text \<open>A persisted document whose only contact has the phone \<^verbatim>\<open>abc\<close>.\<close>

definition file_bad_phone :: pyval where
  "file_bad_phone =
     PDict [(''contacts'',
       PList [PDict [(''name'', PStr ''john''),
                     (''phone'', PList [PDict [(''value'', PStr ''abc'')]]),
                     (''birthday'', PNone)]])]"

text \<open>The book after \<^verbatim>\<open>add ann 999 15.03\<close>.\<close>

definition book_ann :: AddressBook where
  "book_ann = fst (handle_add (PStr ''ann'') (PStr ''999'') AddressBook_init (PStr ''15.03''))"

section \<open>The search of the specification\<close>

text \<open>
  The specification's words for \<^verbatim>\<open>search\<close>, to compare with \<open>search_contacts\<close>: a
  record matches when its name or one of its phone values contains the query, letter
  case ignored on both sides.
\<close>

definition spec_search_match :: "string \<Rightarrow> Record \<Rightarrow> bool" where
  "spec_search_match q r =
     ((case get_value (name r) of PStr s \<Rightarrow> sublist (lower q) (lower s) | _ \<Rightarrow> False) \<or>
      list_ex (\<lambda>p. case get_value p of PStr s \<Rightarrow> sublist (lower q) (lower s) | _ \<Rightarrow> False)
        (phone r))"

section \<open>Properties of fields and records\<close>

lemmas field_eval = get_value_def Field_init_def validate_def Phone_validate_def isdigit_def
  is_ascii_digit_def set_value_def

lemma edit_phone_loop_no_match:
  "list_all (\<lambda>q. \<not> py_eq (get_value q) old_phone) ps \<Longrightarrow>
   edit_phone_loop ps old_phone new_phone = (ps, Inr ())"
  by (induction ps) simp_all

lemma edit_phone_loop_first_match:
  "list_all (\<lambda>q. \<not> py_eq (get_value q) old_phone) pre \<Longrightarrow>
   py_eq (get_value p) old_phone \<Longrightarrow>
   edit_phone_loop (pre @ p # post) old_phone new_phone =
     (pre @ fst (set_value p new_phone) # post, snd (set_value p new_phone))"
  by (induction pre) (simp_all add: case_prod_beta)

text \<open>
  C6. The claim: constructing a Phone from digit-only text succeeds with that value, and
  constructing it from text with a character that is not a digit fails. The constructor
  stores its argument without calling \<^verbatim>\<open>validate\<close>: the text \<^verbatim>\<open>12a\<close>, which
  \<^verbatim>\<open>Phone.validate\<close> rejects, is accepted and held as the value.
\<close>

theorem phone_constructor_accepts_non_digit:
  "get_value (Field_init Phone (PStr ''12a'')) = PStr ''12a'' \<and>
   validate Phone (PStr ''12a'') = Inl (ValueError ''Phone number should only contain digits.'')"
  by (simp add: get_value_def Field_init_def validate_def Phone_validate_def isdigit_def is_ascii_digit_def)

text \<open>
  C1. The claim: the value a field holds always passes the validator of its class,
  because construction and assignment both validate. A record built with the birthday
  \<^verbatim>\<open>99.99\<close> and given the phone \<^verbatim>\<open>abc\<close> holds both values, and both fail the
  validator of their class.
\<close>

theorem record_holds_unvalidated_values:
  "birthday (Record_init (PStr ''john'') (PStr ''99.99'')) =
     Some (Field_init Birthday (PStr ''99.99'')) \<and>
   validate Birthday (get_value (Field_init Birthday (PStr ''99.99''))) =
     Inl (ValueError ''Invalid birthday format. Please use dd.mm format.'') \<and>
   phone (add_phone (Record_init (PStr ''john'') PNone) (PStr ''abc'')) =
     [Field_init Phone (PStr ''abc'')] \<and>
   validate Phone (get_value (Field_init Phone (PStr ''abc''))) =
     Inl (ValueError ''Phone number should only contain digits.'')"
  by (simp add: Record_init_def add_phone_def field_eval Birthday_validate_def py_int_def
      strip_int_def is_c_space_def date_def c_int_def valid_date_def days_in_month_def
      digits_val_def digit_val_def Let_def)

text \<open>
  C8. Assigning a value to a field runs the validator of the field's class first. When
  the validator raises, the assignment raises the same error and the field is
  unchanged; when it passes, the field holds the new value.
\<close>

theorem set_value_validates_before_commit:
  "(\<forall>e. validate (cls f) v = Inl e \<longrightarrow>
        snd (set_value f v) = Inl e \<and> fst (set_value f v) = f) \<and>
   (validate (cls f) v = Inr () \<longrightarrow>
        snd (set_value f v) = Inr () \<and>
        get_value (fst (set_value f v)) = v \<and>
        cls (fst (set_value f v)) = cls f)"
  by (simp add: set_value_def get_value_def)

theorem set_value_validates_before_commit_witness:
  "validate (cls (Field_init Phone (PStr ''123''))) (PStr ''12a'') =
     Inl (ValueError ''Phone number should only contain digits.'') \<and>
   set_value (Field_init Phone (PStr ''123'')) (PStr ''12a'') =
     (Field_init Phone (PStr ''123''),
      Inl (ValueError ''Phone number should only contain digits.'')) \<and>
   validate (cls (Field_init Phone (PStr ''123''))) (PStr ''456'') = Inr () \<and>
   set_value (Field_init Phone (PStr ''123'')) (PStr ''456'') =
     (Field_init Phone (PStr ''456''), Inr ())"
proof -
  let ?f = "Field_init Phone (PStr ''123'')"
  have bad: "validate (cls ?f) (PStr ''12a'') =
      Inl (ValueError ''Phone number should only contain digits.'')"
    by (simp add: field_eval)
  have good: "validate (cls ?f) (PStr ''456'') = Inr ()"
    by (simp add: field_eval)
  from set_value_validates_before_commit [of ?f "PStr ''12a''"] bad
  have 1: "set_value ?f (PStr ''12a'') =
      (?f, Inl (ValueError ''Phone number should only contain digits.''))"
    by (metis prod.collapse)
  from set_value_validates_before_commit [of ?f "PStr ''456''"] good
  have 2: "snd (set_value ?f (PStr ''456'')) = Inr () \<and>
      get_value (fst (set_value ?f (PStr ''456''))) = PStr ''456'' \<and>
      cls (fst (set_value ?f (PStr ''456''))) = cls ?f"
    by blast
  then have "set_value ?f (PStr ''456'') = (Field_init Phone (PStr ''456''), Inr ())"
    by (cases "set_value ?f (PStr ''456'')") (simp add: get_value_def Field_init_def)
  with bad good 1 show ?thesis by blast
qed

text \<open>
  C9. \<^verbatim>\<open>edit_phone(old, new)\<close> does nothing when no phone equals \<^verbatim>\<open>old\<close>.
  Otherwise it assigns \<^verbatim>\<open>new\<close> to the first phone equal to \<^verbatim>\<open>old\<close> and to no
  other: when \<^verbatim>\<open>new\<close> passes the validator that phone holds \<^verbatim>\<open>new\<close> and the rest
  of the list is as before; when \<^verbatim>\<open>new\<close> fails it, the validator's error is raised
  and the record is unchanged.
\<close>

theorem edit_phone_first_match_only:
  "(list_all (\<lambda>q. \<not> py_eq (get_value q) old_phone) (phone r) \<longrightarrow>
      edit_phone r old_phone new_phone = (r, Inr ())) \<and>
   (\<forall>pre p post.
      phone r = pre @ p # post \<and>
      list_all (\<lambda>q. \<not> py_eq (get_value q) old_phone) pre \<and>
      py_eq (get_value p) old_phone \<longrightarrow>
        (validate (cls p) new_phone = Inr () \<longrightarrow>
           edit_phone r old_phone new_phone =
             (r\<lparr>phone := pre @ p\<lparr>private_value := new_phone\<rparr> # post\<rparr>, Inr ())) \<and>
        (\<forall>e. validate (cls p) new_phone = Inl e \<longrightarrow>
           edit_phone r old_phone new_phone = (r, Inl e)))"
proof (intro conjI impI allI)
  assume "list_all (\<lambda>q. \<not> py_eq (get_value q) old_phone) (phone r)"
  then show "edit_phone r old_phone new_phone = (r, Inr ())"
    by (simp add: edit_phone_def edit_phone_loop_no_match)
next
  fix pre p post
  assume h: "phone r = pre @ p # post \<and>
      list_all (\<lambda>q. \<not> py_eq (get_value q) old_phone) pre \<and>
      py_eq (get_value p) old_phone"
    and v: "validate (cls p) new_phone = Inr ()"
  from h have "edit_phone_loop (phone r) old_phone new_phone =
     (pre @ fst (set_value p new_phone) # post, snd (set_value p new_phone))"
    by (simp add: edit_phone_loop_first_match)
  with v show "edit_phone r old_phone new_phone =
             (r\<lparr>phone := pre @ p\<lparr>private_value := new_phone\<rparr> # post\<rparr>, Inr ())"
    by (simp add: edit_phone_def set_value_def)
next
  fix pre p post e
  assume h: "phone r = pre @ p # post \<and>
      list_all (\<lambda>q. \<not> py_eq (get_value q) old_phone) pre \<and>
      py_eq (get_value p) old_phone"
    and v: "validate (cls p) new_phone = Inl e"
  from h have "edit_phone_loop (phone r) old_phone new_phone =
     (pre @ fst (set_value p new_phone) # post, snd (set_value p new_phone))"
    by (simp add: edit_phone_loop_first_match)
  with v h show "edit_phone r old_phone new_phone = (r, Inl e)"
    by (simp add: edit_phone_def set_value_def)
qed

theorem edit_phone_first_match_only_witness:
  "edit_phone john_two_phones (PStr ''333'') (PStr ''x'') = (john_two_phones, Inr ()) \<and>
   edit_phone john_two_phones (PStr ''111'') (PStr ''999'') =
     (john_two_phones\<lparr>phone :=
        [Field_init Phone (PStr ''999''), Field_init Phone (PStr ''222''),
         Field_init Phone (PStr ''111'')]\<rparr>, Inr ()) \<and>
   edit_phone john_two_phones (PStr ''111'') (PStr ''x'') =
     (john_two_phones, Inl (ValueError ''Phone number should only contain digits.''))"
proof -
  have ph: "phone john_two_phones =
      [] @ Field_init Phone (PStr ''111'') #
        [Field_init Phone (PStr ''222''), Field_init Phone (PStr ''111'')]"
    by (simp add: john_two_phones_def add_phone_def Record_init_def)
  have none: "list_all (\<lambda>q. \<not> py_eq (get_value q) (PStr ''333'')) (phone john_two_phones)"
    by (simp add: ph field_eval)
  have hit: "py_eq (get_value (Field_init Phone (PStr ''111''))) (PStr ''111'')"
    by (simp add: field_eval)
  have ok: "validate (cls (Field_init Phone (PStr ''111''))) (PStr ''999'') = Inr ()"
    by (simp add: field_eval)
  have bad: "validate (cls (Field_init Phone (PStr ''111''))) (PStr ''x'') =
      Inl (ValueError ''Phone number should only contain digits.'')"
    by (simp add: field_eval)
  have pre: "list_all (\<lambda>q. \<not> py_eq (get_value q) (PStr ''111'')) []"
    by simp
  have 1: "edit_phone john_two_phones (PStr ''333'') (PStr ''x'') = (john_two_phones, Inr ())"
    using edit_phone_first_match_only [of "PStr ''333''" john_two_phones "PStr ''x''"] none
    by blast
  have 2: "edit_phone john_two_phones (PStr ''111'') (PStr ''999'') =
     (john_two_phones\<lparr>phone := [] @ (Field_init Phone (PStr ''111''))\<lparr>private_value := PStr ''999''\<rparr> #
        [Field_init Phone (PStr ''222''), Field_init Phone (PStr ''111'')]\<rparr>, Inr ())"
    using edit_phone_first_match_only [of "PStr ''111''" john_two_phones "PStr ''999''"] ph hit ok pre
    by blast
  have 3: "edit_phone john_two_phones (PStr ''111'') (PStr ''x'') =
     (john_two_phones, Inl (ValueError ''Phone number should only contain digits.''))"
    using edit_phone_first_match_only [of "PStr ''111''" john_two_phones "PStr ''x''"] ph hit bad pre
    by blast
  from 2 have e2: "edit_phone john_two_phones (PStr ''111'') (PStr ''999'') =
     (john_two_phones\<lparr>phone :=
        [Field_init Phone (PStr ''999''), Field_init Phone (PStr ''222''),
         Field_init Phone (PStr ''111'')]\<rparr>, Inr ())"
    by (simp add: Field_init_def)
  from 1 e2 3 show ?thesis by blast
qed

text \<open>
  What \<^verbatim>\<open>days_to_birthday\<close> does by the kind of the stored birthday: no birthday
  gives \<^verbatim>\<open>None\<close>, a text birthday raises \<open>TypeError\<close>, and a birthday stored as a
  date that falls on today's day and month gives 0.
\<close>

lemma days_to_birthday_no_birthday:
  "birthday r = None \<Longrightarrow> days_to_birthday today r = Inr None"
  by (simp add: days_to_birthday_def)

lemma days_to_birthday_text:
  "birthday r = Some b \<Longrightarrow> get_value b = PStr s \<Longrightarrow> days_to_birthday today r = Inl TypeError"
  by (simp add: days_to_birthday_def split: prod.splits)

lemma days_to_birthday_same_day:
  "valid_date ty m d \<Longrightarrow> birthday r = Some b \<Longrightarrow> get_value b = PDate y m d \<Longrightarrow>
   days_to_birthday (ty, m, d) r = Inr (Some 0)"
  by (auto simp: days_to_birthday_def date_def valid_date_def c_int_def date_less_def
      days_in_month_def split: if_splits)

text \<open>
  C2. The claim: \<^verbatim>\<open>days_to_birthday()\<close> returns the number of days to the next
  birthday whenever a birthday is set. A birthday that passes \<^verbatim>\<open>Birthday.validate\<close>
  is text such as \<^verbatim>\<open>15.03\<close>, and on text the call \<^verbatim>\<open>replace(year=...)\<close> raises
  \<open>TypeError\<close>.
\<close>

theorem days_to_birthday_text_birthday_raises:
  "validate Birthday (PStr ''15.03'') = Inr () \<and>
   days_to_birthday (2026, 11, 4) (Record_init (PStr ''john'') (PStr ''15.03'')) = Inl TypeError"
  by (simp add: Record_init_def field_eval Birthday_validate_def py_int_def
      strip_int_def is_c_space_def date_def c_int_def valid_date_def days_in_month_def
      digits_val_def digit_val_def Let_def days_to_birthday_def)


section \<open>Properties of the address book\<close>

lemmas book_eval = book_John_def add_record_def AddressBook_init_def add_phone_def
  Record_init_def dict_setitem_def Field_init_def get_value_def dict_values_def iter_book_def

lemma any_phone_text:
  "\<forall>p\<in>set ps. \<exists>s. get_value p = PStr s \<Longrightarrow>
   any_phone (PStr q) ps = Inr (\<exists>p\<in>set ps. \<exists>s. get_value p = PStr s \<and> sublist q s)"
  by (induction ps) (auto simp: py_in_def)

lemma search_match_text:
  assumes "get_value (name r) = PStr n"
    and "\<forall>p\<in>set (phone r). \<exists>s. get_value p = PStr s"
  shows "search_match (PStr q) r =
     Inr (sublist q (lower n) \<or> (\<exists>p\<in>set (phone r). \<exists>s. get_value p = PStr s \<and> sublist q s))"
  using assms by (simp add: search_match_def py_lower_def py_in_def any_phone_text)

lemma search_loop_text:
  "\<forall>r\<in>set rs. (\<exists>n. get_value (name r) = PStr n) \<and>
               (\<forall>p\<in>set (phone r). \<exists>s. get_value p = PStr s) \<Longrightarrow>
   search_loop (PStr q) rs =
     Inr (filter (\<lambda>r. (\<exists>n. get_value (name r) = PStr n \<and> sublist q (lower n)) \<or>
                      (\<exists>p\<in>set (phone r). \<exists>s. get_value p = PStr s \<and> sublist q s)) rs)"
proof (induction rs)
  case Nil
  then show ?case by simp
next
  case (Cons r rs)
  then obtain n where n: "get_value (name r) = PStr n" by auto
  from Cons.prems have ph: "\<forall>p\<in>set (phone r). \<exists>s. get_value p = PStr s" by simp
  from Cons have ih: "search_loop (PStr q) rs =
     Inr (filter (\<lambda>r. (\<exists>n. get_value (name r) = PStr n \<and> sublist q (lower n)) \<or>
                      (\<exists>p\<in>set (phone r). \<exists>s. get_value p = PStr s \<and> sublist q s)) rs)"
    by simp
  show ?case
    by (simp add: search_match_text [OF n ph] ih n)
qed

text \<open>
  C7. The claim: \<^verbatim>\<open>search\<close> returns exactly the records whose name or one of whose
  phone values contains the query, letter case ignored, in the book's order. The method
  lower-cases the name only; the query is compared as it is given. In a book holding the
  contact \<^verbatim>\<open>John\<close> the query \<^verbatim>\<open>John\<close> finds nothing.
\<close>

theorem search_contacts_case_counterexample:
  "search_contacts book_John (PStr ''John'') \<noteq>
     Inr (filter (spec_search_match ''John'') (iter_book book_John))"
  by (simp add: book_eval spec_search_match_def search_contacts_def search_match_def
      py_lower_def py_in_def lower_def lower_char_def sublist_code prefix_code)

text \<open>
  C7, as amended. In a book whose names and phone values are all text, \<^verbatim>\<open>search\<close>
  with a text query returns, in the book's order, exactly the records for which the
  query as given is a substring of the lower-cased name or of a phone value as stored.
\<close>

theorem search_contacts_query_as_given:
  assumes "\<forall>r\<in>set (iter_book book).
             (\<exists>n. get_value (name r) = PStr n) \<and>
             (\<forall>p\<in>set (phone r). \<exists>s. get_value p = PStr s)"
  shows "search_contacts book (PStr q) =
     Inr (filter (\<lambda>r. (\<exists>n. get_value (name r) = PStr n \<and> sublist q (lower n)) \<or>
                      (\<exists>p\<in>set (phone r). \<exists>s. get_value p = PStr s \<and> sublist q s))
            (iter_book book))"
  using assms unfolding search_contacts_def iter_book_def by (rule search_loop_text)

theorem search_contacts_query_as_given_witness:
  "search_contacts book_two (PStr ''oh'') =
     Inr [add_phone (Record_init (PStr ''John'') PNone) (PStr ''123'')] \<and>
   search_contacts book_two (PStr ''5'') =
     Inr [add_phone (Record_init (PStr ''ann'') PNone) (PStr ''555'')]"
proof -
  have it: "iter_book book_two =
      [add_phone (Record_init (PStr ''John'') PNone) (PStr ''123''),
       add_phone (Record_init (PStr ''ann'') PNone) (PStr ''555'')]"
    by (simp add: book_two_def book_eval)
  have h: "\<forall>r\<in>set (iter_book book_two).
      (\<exists>n. get_value (name r) = PStr n) \<and>
      (\<forall>p\<in>set (phone r). \<exists>s. get_value p = PStr s)"
    by (simp add: it add_phone_def Record_init_def Field_init_def get_value_def)
  have a: "search_contacts book_two (PStr ''oh'') =
     Inr [add_phone (Record_init (PStr ''John'') PNone) (PStr ''123'')]"
    using search_contacts_query_as_given [OF h, of "''oh''"]
    by (simp add: it add_phone_def Record_init_def Field_init_def get_value_def
        lower_def lower_char_def sublist_code prefix_code)
  have b: "search_contacts book_two (PStr ''5'') =
     Inr [add_phone (Record_init (PStr ''ann'') PNone) (PStr ''555'')]"
    using search_contacts_query_as_given [OF h, of "''5''"]
    by (simp add: it add_phone_def Record_init_def Field_init_def get_value_def
        lower_def lower_char_def sublist_code prefix_code)
  from a b show ?thesis by blast
qed

text \<open>
  Every record's \<^verbatim>\<open>__dict__\<close> holds instances of \<open>Name\<close> and \<open>Phone\<close>, which the
  encoder cannot serialise: saving a book that is not empty raises \<open>TypeError\<close>.
\<close>

lemma json_encode_Record_dict: "json_encode (Record_dict r) = None"
  by (simp add: Record_dict_def)

lemma save_nonempty_raises:
  "data book \<noteq> [] \<Longrightarrow> snd (save_address_book book fs filename) = Inl TypeError"
  by (cases "data book") (simp_all add: save_address_book_def dict_values_def json_encode_Record_dict)

text \<open>
  C3. The claim: saving a book and loading the file gives an equivalent book. Saving the
  book with the one contact \<^verbatim>\<open>John\<close> raises \<open>TypeError\<close> and leaves a file that is
  not JSON; loading that file raises the decoder's error and loads nothing.
\<close>

theorem save_then_load_fails:
  "snd (save_address_book book_John Map.empty ''book.json'') = Inl TypeError \<and>
   load_address_book AddressBook_init
     (fst (save_address_book book_John Map.empty ''book.json'')) ''book.json'' =
     (AddressBook_init, Inl (ValueError ''Expecting value: line 1 column 24 (char 23)''))"
  by (simp add: book_eval save_address_book_def load_address_book_def Record_dict_def)

text \<open>
  Loading a missing file or a file that is not JSON raises and leaves the book as it
  was; a load that succeeds replaces the data by what the file holds, whatever the book
  held before.
\<close>

lemma load_missing_file:
  "fs filename = None \<Longrightarrow> load_address_book book fs filename = (book, Inl FileNotFoundError)"
  by (simp add: load_address_book_def)

lemma load_not_json:
  "fs filename = Some (NotJson msg) \<Longrightarrow>
   load_address_book book fs filename = (book, Inl (ValueError msg))"
  by (simp add: load_address_book_def)

lemma load_error_keeps_book:
  "snd (load_address_book book fs filename) = Inl e \<Longrightarrow>
   fst (load_address_book book fs filename) = book"
  by (auto simp: load_address_book_def split: option.splits file_content.splits sum.splits)

lemma load_success_replaces:
  "load_address_book book fs filename = (book', Inr ()) \<Longrightarrow>
   load_address_book other fs filename = (other\<lparr>data := data book'\<rparr>, Inr ())"
  by (auto simp: load_address_book_def split: option.splits file_content.splits sum.splits)

text \<open>
  C5. The claim: loading a file with a phone value that is not digit-only fails with a
  validation error. \<^verbatim>\<open>load_address_book\<close> builds the phones with \<^verbatim>\<open>add_phone\<close>,
  whose \<^verbatim>\<open>Phone(phone)\<close> stores the value unvalidated: the document with the phone
  \<^verbatim>\<open>abc\<close> loads, and the book holds that phone.
\<close>

theorem load_accepts_non_digit_phone:
  "validate Phone (PStr ''abc'') = Inl (ValueError ''Phone number should only contain digits.'') \<and>
   load_address_book AddressBook_init [''book.json'' \<mapsto> Json file_bad_phone] ''book.json'' =
     (\<lparr>data = [(PStr ''john'', add_phone (Record_init (PStr ''john'') PNone) (PStr ''abc''))]\<rparr>,
      Inr ())"
  by (simp add: file_bad_phone_def load_address_book_def py_getitem_def py_iter_def
      load_record_def book_eval field_eval)


section \<open>Properties of the command handlers\<close>

text \<open>
  C10. When the book already holds a record under the name, \<^verbatim>\<open>handle_add\<close> returns
  its success message and the book is unchanged: the record under the name keeps its
  phones and its birthday, and the phone and birthday of the call are dropped.
\<close>

theorem handle_add_existing_name_unchanged:
  "dict_contains (data address_book) n = Inr True \<Longrightarrow>
   handle_add n p address_book b = (address_book, Inr ''Contact added successfully.'')"
  by (simp add: handle_add_def handle_add_body_def input_error_def)

theorem handle_add_existing_name_unchanged_witness:
  "dict_contains (data book_John) (PStr ''John'') = Inr True \<and>
   handle_add (PStr ''John'') (PStr ''999'') book_John (PStr ''15.03'') =
     (book_John, Inr ''Contact added successfully.'')"
proof -
  have h: "dict_contains (data book_John) (PStr ''John'') = Inr True"
    by (simp add: book_eval dict_contains_def)
  from h handle_add_existing_name_unchanged [OF h, of "PStr ''999''" "PStr ''15.03''"]
  show ?thesis by simp
qed

text \<open>
  A command that starts with \<^verbatim>\<open>days to birthday\<close> has at least three words, so
  unpacking them into two names raises in the loop: the handler is never reached.
\<close>

lemma split_words_nonempty: "cur \<noteq> [] \<Longrightarrow> split_words cur cs \<noteq> []"
  by (induction cs arbitrary: cur) auto

lemma days_to_birthday_command_crashes:
  assumes "prefix ''days to birthday'' (lower line)"
  shows "\<exists>e. snd (snd (main_step today address_book fs line)) = Crash e"
proof -
  from assms obtain rest where c: "lower line = ''days to birthday'' @ rest"
    by (auto simp: prefix_def)
  have "split (lower line) = ''days'' # ''to'' # split_words ''birthday'' rest"
    by (simp add: c split_def is_space_def)
  moreover obtain w ws where "split_words ''birthday'' rest = w # ws"
    using split_words_nonempty [of "''birthday''" rest] by (cases "split_words ''birthday'' rest") auto
  ultimately have p: "split (''days to birthday'' @ rest) = ''days'' # ''to'' # w # ws"
    by (simp add: c)
  show ?thesis
    by (simp add: main_step_def Let_def c p [simplified] prefix_code)
qed

text \<open>
  C4. The claim: every error raised inside a command handler is caught and becomes a
  message, and no exception ends the process. The command \<^verbatim>\<open>add\<close> with the wrong
  number of words is answered \<^verbatim>\<open>Invalid command.\<close>, but \<^verbatim>\<open>phone\<close> with no name
  is unpacked in the loop, outside the decorated handler, and its \<open>ValueError\<close> ends
  the process. The \<open>TypeError\<close> that \<^verbatim>\<open>days_to_birthday\<close> raises on a text birthday
  is not among the exceptions the decorator catches and leaves the decorated handler,
  and the \<open>TypeError\<close> of \<^verbatim>\<open>save\<close> ends the process.
\<close>

theorem command_errors_end_the_process:
  "snd (snd (main_step (2026, 11, 4) AddressBook_init Map.empty ''add'')) =
     Response ''Invalid command.'' \<and>
   snd (snd (main_step (2026, 11, 4) AddressBook_init Map.empty ''phone'')) =
     Crash (ValueError ''not enough values to unpack (expected 2, got 1)'') \<and>
   snd (snd (snd (main (2026, 11, 4) Map.empty [''phone'']))) =
     Some (ValueError ''not enough values to unpack (expected 2, got 1)'') \<and>
   handle_days_to_birthday (2026, 11, 4) (PStr ''ann'') book_ann = Inl TypeError \<and>
   snd (snd (snd (main (2026, 11, 4) Map.empty [''add ann 999 15.03'', ''save book'']))) =
     Some TypeError"
  by code_simp

end
